theory Spec2Isabelle
  imports Complex_Main
begin

section \<open>Data model: cells, series, frames and the object store\<close>

text \<open>
  The module \<^verbatim>\<open>incline/trend.py\<close> works on pandas data frames. A cell of a frame is a
  number, the missing value NaN, a string or Python's \<^verbatim>\<open>None\<close>. Floating-point numbers are
  idealised as exact rationals: rounding and the infinities are left out, NaN is kept since
  pandas' treatment of missing values decides what the code computes. Python integers and
  floats are both \<open>Num\<close> (\<^verbatim>\<open>1 == 1.0\<close> in Python).
\<close>

datatype cell = Num rat | NaN | Str string | NoneC

datatype error =
    KeyError string
  | AttributeError string
  | TypeError
  | ValueError
  | InvalidRef

text \<open>
  A series is the list of its values. Every series that \<^verbatim>\<open>trend.py\<close> combines is derived
  from one frame and carries that frame's index, so pandas' alignment on the index is the
  identity there and the values are combined position by position.
\<close>

type_synonym series = "cell list"

text \<open>
  A frame: the row labels in row order, the name of the index when it has one, and the
  columns in column order, each with its name and as many cells as there are rows.
\<close>

record frame =
  index :: "cell list"
  index_name :: "string option"
  columns :: "(string \<times> series) list"

definition wf_frame :: "frame \<Rightarrow> bool" where
  "wf_frame f = (distinct (map fst (columns f)) \<and>
                 list_all (\<lambda>(n, v). length v = length (index f)) (columns f))"

text \<open>
  Frames are mutable Python objects: \<^verbatim>\<open>odf['c'] = ...\<close> changes the object that \<^verbatim>\<open>odf\<close>
  names. The store holds the frame objects; a reference is a position in it and a new
  object is put at the end. A call returns its result or the exception it raised, together
  with the store it leaves behind.
\<close>

type_synonym ref = nat
type_synonym heap = "frame list"
type_synonym 'a prog = "heap \<Rightarrow> (error + 'a) \<times> heap"

definition ret :: "'a \<Rightarrow> 'a prog" where
  "ret x h = (Inr x, h)"

definition raise :: "error \<Rightarrow> 'a prog" where
  "raise e h = (Inl e, h)"

definition bnd :: "'a prog \<Rightarrow> ('a \<Rightarrow> 'b prog) \<Rightarrow> 'b prog" where
  "bnd m k h = (case m h of (Inl e, h') \<Rightarrow> (Inl e, h') | (Inr x, h') \<Rightarrow> k x h')"

definition lift :: "error + 'a \<Rightarrow> 'a prog" where
  "lift r h = (r, h)"

definition deref :: "ref \<Rightarrow> frame prog" where
  "deref r h = (if r < length h then (Inr (h ! r), h) else (Inl InvalidRef, h))"

definition alloc :: "frame \<Rightarrow> ref prog" where
  "alloc f h = (Inr (length h), h @ [f])"

definition modify :: "ref \<Rightarrow> (frame \<Rightarrow> error + frame) \<Rightarrow> unit prog" where
  "modify r g h =
     (if r < length h
      then (case g (h ! r) of Inl e \<Rightarrow> (Inl e, h) | Inr f' \<Rightarrow> (Inr (), h[r := f']))
      else (Inl InvalidRef, h))"

section \<open>The part of pandas that the module uses\<close>

fun sequence :: "(error + 'a) list \<Rightarrow> error + 'a list" where
  "sequence [] = Inr []"
| "sequence (r # rs) =
     (case r of Inl e \<Rightarrow> Inl e
      | Inr x \<Rightarrow> (case sequence rs of Inl e \<Rightarrow> Inl e | Inr xs \<Rightarrow> Inr (x # xs)))"

text \<open>\<^verbatim>\<open>df[name]\<close>: the column, or KeyError.\<close>

definition getitem :: "frame \<Rightarrow> string \<Rightarrow> error + series" where
  "getitem f name =
     (case map_of (columns f) name of None \<Rightarrow> Inl (KeyError name) | Some v \<Rightarrow> Inr v)"

text \<open>\<^verbatim>\<open>df.name\<close>: the column, or AttributeError.\<close>

definition getattr :: "frame \<Rightarrow> string \<Rightarrow> error + series" where
  "getattr f name =
     (case map_of (columns f) name of None \<Rightarrow> Inl (AttributeError name) | Some v \<Rightarrow> Inr v)"

text \<open>
  Assigning a column: an existing column keeps its place and gets the new cells, a new
  column goes to the end.
\<close>

fun assign :: "string \<Rightarrow> series \<Rightarrow> (string \<times> series) list \<Rightarrow> (string \<times> series) list" where
  "assign name v [] = [(name, v)]"
| "assign name v (p # ps) = (if fst p = name then (name, v) # ps else p # assign name v ps)"

text \<open>
  \<^verbatim>\<open>df[name] = values\<close> with an array or a series on the frame's own index: ValueError
  when the number of values is not the number of rows.
\<close>

definition set_values :: "string \<Rightarrow> series \<Rightarrow> frame \<Rightarrow> error + frame" where
  "set_values name v f =
     (if length v = length (index f)
      then Inr (f\<lparr>columns := assign name v (columns f)\<rparr>)
      else Inl ValueError)"

text \<open>\<^verbatim>\<open>df[name] = c\<close> with a scalar: the scalar in every row.\<close>

definition set_scalar :: "string \<Rightarrow> cell \<Rightarrow> frame \<Rightarrow> error + frame" where
  "set_scalar name c f =
     Inr (f\<lparr>columns := assign name (replicate (length (index f)) c) (columns f)\<rparr>)"

text \<open>\<^verbatim>\<open>df.copy()\<close>: a new object with the same contents.\<close>

definition copy :: "ref \<Rightarrow> ref prog" where
  "copy r = bnd (deref r) alloc"

definition setitem :: "ref \<Rightarrow> string \<Rightarrow> series \<Rightarrow> unit prog" where
  "setitem r name v = modify r (set_values name v)"

definition setitem_scalar :: "ref \<Rightarrow> string \<Rightarrow> cell \<Rightarrow> unit prog" where
  "setitem_scalar r name c = modify r (set_scalar name c)"

text \<open>
  \<^verbatim>\<open>s.shift(periods)\<close>: the values move down by \<open>periods\<close> rows (up when negative), the
  rows left free hold NaN, the length stays.
\<close>

definition shift :: "int \<Rightarrow> series \<Rightarrow> series" where
  "shift periods ys =
     (let n = length ys; p = min (nat \<bar>periods\<bar>) n
      in if 0 \<le> periods then replicate p NaN @ take (n - p) ys
         else drop p ys @ replicate p NaN)"

text \<open>
  Subtraction of two cells: numbers subtract, NaN propagates, a string or \<^verbatim>\<open>None\<close> operand
  raises TypeError.
\<close>

fun cell_sub :: "cell \<Rightarrow> cell \<Rightarrow> error + cell" where
  "cell_sub (Num a) (Num b) = Inr (Num (a - b))"
| "cell_sub (Num a) NaN = Inr NaN"
| "cell_sub NaN (Num b) = Inr NaN"
| "cell_sub NaN NaN = Inr NaN"
| "cell_sub _ _ = Inl TypeError"

definition series_sub :: "series \<Rightarrow> series \<Rightarrow> error + series" where
  "series_sub xs ys = sequence (map (\<lambda>(x, y). cell_sub x y) (zip xs ys))"

definition series_sub_scalar :: "series \<Rightarrow> cell \<Rightarrow> error + series" where
  "series_sub_scalar xs c = sequence (map (\<lambda>x. cell_sub x c) xs)"

text \<open>\<^verbatim>\<open>pd.concat([...], axis=1)\<close> of renamed series that carry the index of the frame \<open>f\<close>:
  a frame of those columns on that index.\<close>

definition concat_axis1 :: "frame \<Rightarrow> (string \<times> series) list \<Rightarrow> frame" where
  "concat_axis1 f named = \<lparr>index = index f, index_name = index_name f, columns = named\<rparr>"

text \<open>\<^verbatim>\<open>df[[n1, n2, ...]]\<close>: the named columns in the order asked for, or KeyError.\<close>

definition select :: "frame \<Rightarrow> string list \<Rightarrow> error + frame" where
  "select f names =
     (case sequence (map (getitem f) names) of
        Inl e \<Rightarrow> Inl e
      | Inr vs \<Rightarrow> Inr (f\<lparr>columns := zip names vs\<rparr>))"

text \<open>
  The mean of the numbers among some cells, NaN skipped (pandas' \<^verbatim>\<open>skipna=True\<close>); NaN
  when no number is left; TypeError on a string or \<^verbatim>\<open>None\<close>.
\<close>

fun numbers :: "cell list \<Rightarrow> error + rat list" where
  "numbers [] = Inr []"
| "numbers (Num a # cs) = (case numbers cs of Inl e \<Rightarrow> Inl e | Inr as \<Rightarrow> Inr (a # as))"
| "numbers (NaN # cs) = numbers cs"
| "numbers (_ # cs) = Inl TypeError"

definition agg_mean :: "cell list \<Rightarrow> error + cell" where
  "agg_mean cs =
     (case numbers cs of
        Inl e \<Rightarrow> Inl e
      | Inr as \<Rightarrow> Inr (if as = [] then NaN else Num (sum_list as / of_nat (length as))))"

text \<open>\<^verbatim>\<open>df.mean(axis=1)\<close>: the mean of each row over the frame's columns.\<close>

definition row_at :: "frame \<Rightarrow> nat \<Rightarrow> cell list" where
  "row_at f i = map (\<lambda>(n, v). v ! i) (columns f)"

definition mean_axis1 :: "frame \<Rightarrow> error + series" where
  "mean_axis1 f = sequence (map (\<lambda>i. agg_mean (row_at f i)) [0..<length (index f)])"

section \<open>\<^verbatim>\<open>naive_trend\<close>\<close>

text \<open>
  Lines 19 to 38 of \<^verbatim>\<open>trend.py\<close>. Line 25 reads \<^verbatim>\<open>yneg1_diff = y - y-2\<close>, which Python
  parses as \<^verbatim>\<open>(y - y) - 2\<close>; the series \<^verbatim>\<open>y_2\<close> of line 22 is only stored in \<^verbatim>\<open>yy\<close>.
\<close>

definition naive_trend :: "ref \<Rightarrow> string \<Rightarrow> ref prog" where
  "naive_trend df column_value =
     bnd (deref df) (\<lambda>f.
     bnd (lift (getitem f column_value)) (\<lambda>y.
     let y_1 = shift 1 y;
         y_2 = shift (- 1) y
     in
     bnd (lift (series_sub y_1 y)) (\<lambda>y1_diff.
     bnd (lift (series_sub y y)) (\<lambda>y_y.
     bnd (lift (series_sub_scalar y_y (Num 2))) (\<lambda>yneg1_diff.
     let yy = concat_axis1 f
                [(''orig'', y), (''plus_1'', y_1), (''min_1'', y_2),
                 (''plus_1_diff'', y1_diff), (''min_1_diff'', yneg1_diff)]
     in
     bnd (copy df) (\<lambda>odf.
     bnd (lift (select yy [''plus_1_diff'', ''min_1_diff''])) (\<lambda>sel.
     bnd (lift (mean_axis1 sel)) (\<lambda>m.
     bnd (setitem odf ''derivative_value'' m) (\<lambda>_.
     bnd (setitem_scalar odf ''derivative_method'' (Str ''naive'')) (\<lambda>_.
     bnd (setitem_scalar odf ''function_order'' NoneC) (\<lambda>_.
     bnd (setitem_scalar odf ''derivative_order'' (Num 1)) (\<lambda>_.
     ret odf))))))))))))"

section \<open>\<^verbatim>\<open>spline_trend\<close> and \<open>sgolay_trend\<close>\<close>

text \<open>
  \<^verbatim>\<open>df.reset_index()\<close>: the rows are numbered from 0 and the old index becomes the first
  column, under the index's name, or under \<^verbatim>\<open>index\<close> (\<^verbatim>\<open>level_0\<close> when \<^verbatim>\<open>index\<close> is taken)
  for an index without a name; ValueError when that column exists already.
\<close>

definition reset_index :: "frame \<Rightarrow> error + frame" where
  "reset_index f =
     (let names = map fst (columns f);
          name = (case index_name f of
                    Some n \<Rightarrow> n
                  | None \<Rightarrow> if ''index'' \<in> set names then ''level_0'' else ''index'')
      in if name \<in> set names then Inl ValueError
         else Inr \<lparr>index = map (\<lambda>i. Num (of_nat i)) [0..<length (index f)],
                   index_name = None,
                   columns = (name, index f) # columns f\<rparr>)"

text \<open>
  scipy is not part of the repository. Its two routines are parameters of the model:
  \<open>UnivariateSpline\<close> fits a spline object of some type \<open>'s\<close> or raises, \<open>spl_call\<close>
  evaluates the fitted object (its derivative of order \<open>nu\<close>) at the given positions or
  raises, and \<open>savgol_core\<close> is the numerical part of the Savitzky-Golay filter.
\<close>

record 's scipy =
  UnivariateSpline :: "series \<Rightarrow> series \<Rightarrow> cell \<Rightarrow> cell \<Rightarrow> error + 's"
  spl_call :: "'s \<Rightarrow> series \<Rightarrow> cell \<Rightarrow> error + series"
  savgol_core :: "series \<Rightarrow> int \<Rightarrow> cell \<Rightarrow> cell \<Rightarrow> error + series"

text \<open>
  Lines 61 to 70. The positions \<^verbatim>\<open>x\<close> are the labels of the renumbered index; as floats
  they are the same numbers. \<^verbatim>\<open>spl(x)\<close> is the call with \<^verbatim>\<open>nu=0\<close>.
\<close>

definition spline_trend ::
  "'s scipy \<Rightarrow> ref \<Rightarrow> string \<Rightarrow> cell \<Rightarrow> cell \<Rightarrow> cell \<Rightarrow> ref prog" where
  "spline_trend sp df column_value function_order derivative_order s =
     bnd (deref df) (\<lambda>f.
     bnd (lift (reset_index f)) (\<lambda>g.
     let x = index g in
     bnd (lift (getitem f column_value)) (\<lambda>y.
     bnd (lift (UnivariateSpline sp x y function_order s)) (\<lambda>spl.
     bnd (copy df) (\<lambda>odf.
     bnd (lift (spl_call sp spl x (Num 0))) (\<lambda>smoothed.
     bnd (setitem odf ''smoothed_value'' smoothed) (\<lambda>_.
     bnd (lift (spl_call sp spl x derivative_order)) (\<lambda>deriv.
     bnd (setitem odf ''derivative_value'' deriv) (\<lambda>_.
     bnd (setitem_scalar odf ''function_order'' function_order) (\<lambda>_.
     bnd (setitem_scalar odf ''derivative_method'' (Str ''spline'')) (\<lambda>_.
     bnd (setitem_scalar odf ''derivative_order'' derivative_order) (\<lambda>_.
     ret odf))))))))))))"

text \<open>
  Modelled from the spec: \<^verbatim>\<open>scipy.signal.savgol_filter\<close>, which is not under \<^verbatim>\<open>src/\<close>. The
  spec (section 4.3) gives its constraints: the window length "must be odd and \<open>\<le>\<close> series
  length", the polynomial order "must be < window length", and the filter "fails when
  window/order constraints are violated". What it computes otherwise is \<open>savgol_core\<close>.
\<close>

definition savgol_filter ::
  "'s scipy \<Rightarrow> series \<Rightarrow> int \<Rightarrow> cell \<Rightarrow> cell \<Rightarrow> error + series" where
  "savgol_filter sp y window_length polyorder deriv =
     (if even window_length \<or> int (length y) < window_length then Inl ValueError
      else case polyorder of
             Num p \<Rightarrow> if of_int window_length \<le> p then Inl ValueError
                      else savgol_core sp y window_length polyorder deriv
           | _ \<Rightarrow> Inl TypeError)"

text \<open>Lines 95 to 105. The first call of the filter has \<^verbatim>\<open>deriv=0\<close>, the default.\<close>

definition sgolay_trend ::
  "'s scipy \<Rightarrow> ref \<Rightarrow> string \<Rightarrow> cell \<Rightarrow> cell \<Rightarrow> int \<Rightarrow> ref prog" where
  "sgolay_trend sp df column_value function_order derivative_order window_length =
     bnd (deref df) (\<lambda>f.
     bnd (lift (getitem f column_value)) (\<lambda>y.
     bnd (copy df) (\<lambda>odf.
     bnd (lift (savgol_filter sp y window_length function_order (Num 0))) (\<lambda>smoothed.
     bnd (setitem odf ''smoothed_value'' smoothed) (\<lambda>_.
     bnd (lift (savgol_filter sp y window_length function_order derivative_order)) (\<lambda>deriv.
     bnd (setitem odf ''derivative_value'' deriv) (\<lambda>_.
     bnd (setitem_scalar odf ''function_order'' function_order) (\<lambda>_.
     bnd (setitem_scalar odf ''derivative_method'' (Str ''sgolay'')) (\<lambda>_.
     bnd (setitem_scalar odf ''derivative_order'' derivative_order) (\<lambda>_.
     ret odf))))))))))"

section \<open>\<^verbatim>\<open>trending\<close>\<close>

text \<open>
  \<^verbatim>\<open>s == c\<close>: a number equals a number of the same value, a string an equal string; NaN
  and \<^verbatim>\<open>None\<close> equal nothing.
\<close>

fun cell_eq :: "cell \<Rightarrow> cell \<Rightarrow> bool" where
  "cell_eq (Num a) (Num b) = (a = b)"
| "cell_eq (Str s) (Str t) = (s = t)"
| "cell_eq _ _ = False"

definition series_eq :: "series \<Rightarrow> cell \<Rightarrow> bool list" where
  "series_eq xs c = map (\<lambda>x. cell_eq x c) xs"

text \<open>\<^verbatim>\<open>df[mask]\<close>: the rows where the mask holds, in row order, with their labels.\<close>

definition keep :: "bool list \<Rightarrow> 'a list \<Rightarrow> 'a list" where
  "keep msk xs = map snd (filter fst (zip msk xs))"

definition boolean_index :: "frame \<Rightarrow> bool list \<Rightarrow> frame" where
  "boolean_index f msk =
     f\<lparr>index := keep msk (index f),
       columns := map (\<lambda>(n, v). (n, keep msk v)) (columns f)\<rparr>"

text \<open>
  \<^verbatim>\<open>df[start:]\<close>: Python's slice of the rows. A negative start counts from the end; a
  start before the first row means the first row, one after the last row gives no row.
\<close>

definition slice_start :: "int \<Rightarrow> nat \<Rightarrow> nat" where
  "slice_start start n =
     (if start < 0 then nat (max 0 (start + int n)) else min (nat start) n)"

definition slice_from :: "int \<Rightarrow> frame \<Rightarrow> frame" where
  "slice_from start f =
     (let d = slice_start start (length (index f))
      in f\<lparr>index := drop d (index f),
           columns := map (\<lambda>(n, v). (n, drop d v)) (columns f)\<rparr>)"

text \<open>
  Line 141, the expression \<^verbatim>\<open>df[df.derivative_order == derivative_order][-k:]\<close>: the rows
  tagged with the requested order, sliced from position \<open>-k\<close>.
\<close>

definition tail_subset :: "frame \<Rightarrow> cell \<Rightarrow> int \<Rightarrow> error + frame" where
  "tail_subset f derivative_order k =
     (case getattr f ''derivative_order'' of
        Inl e \<Rightarrow> Inl e
      | Inr col \<Rightarrow> Inr (slice_from (- k) (boolean_index f (series_eq col derivative_order))))"

text \<open>Lines 139 to 141: the loop over \<^verbatim>\<open>df_list\<close> that fills \<^verbatim>\<open>cdf\<close>.\<close>

fun collect :: "ref list \<Rightarrow> cell \<Rightarrow> int \<Rightarrow> frame list \<Rightarrow> frame list prog" where
  "collect [] derivative_order k cdf = ret cdf"
| "collect (df # df_list) derivative_order k cdf =
     bnd (deref df) (\<lambda>f.
     bnd (lift (tail_subset f derivative_order k)) (\<lambda>sub.
     collect df_list derivative_order k (cdf @ [sub])))"

text \<open>
  \<^verbatim>\<open>pd.concat(frames, sort=False)\<close>: ValueError for no frame. The rows of the frames follow
  each other; the columns are those of all frames, each at its first appearance; a frame
  without a column has NaN there. The index keeps its name when all frames agree on it.
\<close>

definition uniq :: "'a list \<Rightarrow> 'a list" where
  "uniq xs = rev (remdups (rev xs))"

definition column_or_nan :: "string \<Rightarrow> frame \<Rightarrow> series" where
  "column_or_nan n f =
     (case map_of (columns f) n of
        Some v \<Rightarrow> v
      | None \<Rightarrow> replicate (length (index f)) NaN)"

definition concat_rows :: "frame list \<Rightarrow> error + frame" where
  "concat_rows fs =
     (if fs = [] then Inl ValueError
      else Inr \<lparr>index = concat (map index fs),
                index_name = (if list_all (\<lambda>f. index_name f = index_name (hd fs)) fs
                              then index_name (hd fs) else None),
                columns = map (\<lambda>n. (n, concat (map (column_or_nan n) fs)))
                              (uniq (concat (map (\<lambda>f. map fst (columns f)) fs)))\<rparr>)"

text \<open>
  The order in which pandas sorts group keys: numbers before strings, numbers by value,
  strings by their characters' codes.
\<close>

fun str_le :: "string \<Rightarrow> string \<Rightarrow> bool" where
  "str_le [] t = True"
| "str_le (a # s) [] = False"
| "str_le (a # s) (b # t) =
     (if a = b then str_le s t else (of_char a :: nat) < of_char b)"

fun cell_le :: "cell \<Rightarrow> cell \<Rightarrow> bool" where
  "cell_le (Num a) (Num b) = (a \<le> b)"
| "cell_le (Num a) _ = True"
| "cell_le (Str s) (Str t) = str_le s t"
| "cell_le (Str s) (Num b) = False"
| "cell_le (Str s) _ = True"
| "cell_le _ _ = False"

fun insert_key :: "cell \<Rightarrow> cell list \<Rightarrow> cell list" where
  "insert_key c [] = [c]"
| "insert_key c (d # ds) = (if cell_le c d then c # d # ds else d # insert_key c ds)"

definition sort_keys :: "cell list \<Rightarrow> cell list" where
  "sort_keys cs = foldr insert_key cs []"

fun isna :: "cell \<Rightarrow> bool" where
  "isna NaN = True"
| "isna NoneC = True"
| "isna _ = False"

text \<open>
  \<^verbatim>\<open>df.groupby(name)\<close>: the key of each row is its cell in the column \<open>name\<close>, or its label
  when the index has that name; ValueError when both have it, KeyError when neither. The
  groups are the distinct keys that are not missing, sorted.
\<close>

definition group_keys_of :: "frame \<Rightarrow> string \<Rightarrow> error + series" where
  "group_keys_of f name =
     (case map_of (columns f) name of
        Some v \<Rightarrow> if index_name f = Some name then Inl ValueError else Inr v
      | None \<Rightarrow> if index_name f = Some name then Inr (index f) else Inl (KeyError name))"

definition group_keys :: "series \<Rightarrow> cell list" where
  "group_keys ks = sort_keys (remdups (filter (\<lambda>c. \<not> isna c) ks))"

text \<open>
  The aggregations by name on a numeric column, NaN skipped: the largest number, or the
  mean; NaN for a group without a number. The model knows \<^verbatim>\<open>'max'\<close> and \<^verbatim>\<open>'mean'\<close> only and
  raises for any other name, and for a string or \<^verbatim>\<open>None\<close> among the cells.
\<close>

fun max_list :: "rat list \<Rightarrow> rat" where
  "max_list [] = 0"
| "max_list [a] = a"
| "max_list (a # b # bs) = max a (max_list (b # bs))"

definition agg_max :: "cell list \<Rightarrow> error + cell" where
  "agg_max cs =
     (case numbers cs of
        Inl e \<Rightarrow> Inl e
      | Inr as \<Rightarrow> Inr (if as = [] then NaN else Num (max_list as)))"

definition agg_by :: "string \<Rightarrow> cell list \<Rightarrow> error + cell" where
  "agg_by how cs =
     (if how = ''max'' then agg_max cs
      else if how = ''mean'' then agg_mean cs
      else Inl (AttributeError how))"

text \<open>
  \<^verbatim>\<open>df.groupby(name).agg({column: how})\<close>: one row per group, labelled with the group's key
  on an index called \<open>name\<close>, holding the aggregate of the group's cells of \<open>column\<close>.
\<close>

definition groupby_agg :: "frame \<Rightarrow> string \<Rightarrow> string \<Rightarrow> string \<Rightarrow> error + frame" where
  "groupby_agg f name column how =
     (case group_keys_of f name of
        Inl e \<Rightarrow> Inl e
      | Inr ks \<Rightarrow>
         (case getitem f column of
            Inl e \<Rightarrow> Inl e
          | Inr v \<Rightarrow>
             (let keys = group_keys ks in
              case sequence (map (\<lambda>key. agg_by how (keep (map (\<lambda>c. c = key) ks) v)) keys) of
                Inl e \<Rightarrow> Inl e
              | Inr agg \<Rightarrow> Inr \<lparr>index = keys, index_name = Some name,
                                columns = [(column, agg)]\<rparr>)))"

text \<open>\<^verbatim>\<open>df.columns = names\<close>: ValueError unless there is one name for each column.\<close>

definition set_columns :: "string list \<Rightarrow> frame \<Rightarrow> error + frame" where
  "set_columns names f =
     (if length names = length (columns f)
      then Inr (f\<lparr>columns := zip names (map snd (columns f))\<rparr>)
      else Inl ValueError)"

text \<open>
  Lines 139 to 148. The argument \<^verbatim>\<open>column_id\<close> is not used by the code: the grouping
  column is the literal \<^verbatim>\<open>'id'\<close>.
\<close>

definition trending :: "ref list \<Rightarrow> string \<Rightarrow> cell \<Rightarrow> string \<Rightarrow> int \<Rightarrow> ref prog" where
  "trending df_list column_id derivative_order max_or_avg k =
     bnd (collect df_list derivative_order k []) (\<lambda>cdf.
     bnd (lift (concat_rows cdf)) (\<lambda>tdf.
     let max_or_avg = (if max_or_avg = ''avg'' then ''mean'' else max_or_avg) in
     bnd (lift (groupby_agg tdf ''id'' ''derivative_value'' max_or_avg)) (\<lambda>agg.
     bnd (alloc agg) (\<lambda>odf.
     bnd (modify odf reset_index) (\<lambda>_.
     bnd (modify odf (set_columns [''id'', ''max_or_avg''])) (\<lambda>_.
     ret odf))))))"

section \<open>Reference notions and example inputs\<close>

text \<open>
  The centred first difference that the docstring of \<^verbatim>\<open>naive_trend\<close> describes: the mean of
  the change to the right and the change from the left at an interior row.
\<close>

definition forward_difference :: "rat list \<Rightarrow> nat \<Rightarrow> rat" where
  "forward_difference ys i = ys ! (i + 1) - ys ! i"

definition backward_difference :: "rat list \<Rightarrow> nat \<Rightarrow> rat" where
  "backward_difference ys i = ys ! i - ys ! (i - 1)"

definition centered_difference :: "rat list \<Rightarrow> nat \<Rightarrow> rat" where
  "centered_difference ys i = (forward_difference ys i + backward_difference ys i) / 2"

text \<open>A column reads from its largest entry to its smallest.\<close>

fun descending :: "series \<Rightarrow> bool" where
  "descending (c # d # cs) = (cell_le d c \<and> descending (d # cs))"
| "descending _ = True"

text \<open>
  A trend table of one series: rows numbered from 0, the values, a derivative value for
  each row, every row tagged with the same derivative order and with the series'
  identifier.
\<close>

definition series_table :: "string \<Rightarrow> rat \<Rightarrow> rat list \<Rightarrow> rat list \<Rightarrow> frame" where
  "series_table ident order vals derivs =
     \<lparr>index = map (\<lambda>i. Num (of_nat i)) [0..<length vals], index_name = None,
      columns = [(''value'', map Num vals),
                 (''derivative_value'', map Num derivs),
                 (''derivative_order'', replicate (length vals) (Num order)),
                 (''id'', replicate (length vals) (Str ident))]\<rparr>"

text \<open>A plain time series: rows numbered from 0 and one column \<^verbatim>\<open>value\<close>.\<close>

definition value_table :: "rat list \<Rightarrow> frame" where
  "value_table vals =
     \<lparr>index = map (\<lambda>i. Num (of_nat i)) [0..<length vals], index_name = None,
      columns = [(''value'', map Num vals)]\<rparr>"

text \<open>
  The ranking as the specification words it, step by step. For each table: the positions
  of the rows whose \<^verbatim>\<open>derivative_order\<close> equals the requested order, the last \<open>k\<close> of those
  positions, and the rows at them. Then the subsets of all tables are concatenated into one
  pooled table, the pooled table is grouped by \<^verbatim>\<open>id\<close>, and \<^verbatim>\<open>derivative_value\<close> is aggregated
  with \<^verbatim>\<open>'max'\<close> for \<^verbatim>\<open>max_or_avg = 'max'\<close> and with \<^verbatim>\<open>'mean'\<close> otherwise (\<^verbatim>\<open>'avg'\<close>). The ranking
  table has one row per group, numbered from 0, with the group's id and its aggregate.
\<close>

definition matching_rows :: "cell \<Rightarrow> frame \<Rightarrow> error + nat list" where
  "matching_rows d f =
     (case getattr f ''derivative_order'' of
        Inl e \<Rightarrow> Inl e
      | Inr col \<Rightarrow> Inr (filter (\<lambda>i. cell_eq (col ! i) d) [0..<length col]))"

definition last_k :: "nat \<Rightarrow> 'a list \<Rightarrow> 'a list" where
  "last_k k xs = drop (length xs - k) xs"

definition take_rows :: "nat list \<Rightarrow> frame \<Rightarrow> frame" where
  "take_rows ps f =
     f\<lparr>index := map (\<lambda>i. index f ! i) ps,
       columns := map (\<lambda>(n, v). (n, map (\<lambda>i. v ! i) ps)) (columns f)\<rparr>"

definition tail_window :: "cell \<Rightarrow> nat \<Rightarrow> frame \<Rightarrow> error + frame" where
  "tail_window d k f =
     (case matching_rows d f of
        Inl e \<Rightarrow> Inl e
      | Inr ps \<Rightarrow> Inr (take_rows (last_k k ps) f))"

definition ranking :: "frame \<Rightarrow> frame" where
  "ranking g =
     \<lparr>index = map (\<lambda>i. Num (of_nat i)) [0..<length (index g)], index_name = None,
      columns = [(''id'', index g), (''max_or_avg'', column_or_nan ''derivative_value'' g)]\<rparr>"

definition trending_spec :: "frame list \<Rightarrow> cell \<Rightarrow> string \<Rightarrow> nat \<Rightarrow> error + frame" where
  "trending_spec tables d max_or_avg k =
     (case sequence (map (tail_window d k) tables) of
        Inl e \<Rightarrow> Inl e
      | Inr subsets \<Rightarrow>
         (case concat_rows subsets of
            Inl e \<Rightarrow> Inl e
          | Inr pooled \<Rightarrow>
             (case groupby_agg pooled ''id'' ''derivative_value''
                                 (if max_or_avg = ''max'' then ''max'' else ''mean'') of
                Inl e \<Rightarrow> Inl e
              | Inr g \<Rightarrow> Inr (ranking g))))"








text \<open>
  A stand-in for scipy to run the examples with: every fit succeeds and every fitted or
  filtered value is 0.
\<close>

definition zero_scipy :: "unit scipy" where
  "zero_scipy =
     \<lparr>UnivariateSpline = (\<lambda>x y k s. Inr ()),
      spl_call = (\<lambda>spl x nu. Inr (map (\<lambda>_. Num 0) x)),
      savgol_core = (\<lambda>y w p d. Inr (map (\<lambda>_. Num 0) y))\<rparr>"

section \<open>Basic facts about the store and the frame operations\<close>

lemma copy_eq:
  "copy df h = (if df < length h then (Inr (length h), h @ [h ! df]) else (Inl InvalidRef, h))"
  by (simp add: copy_def bnd_def deref_def alloc_def)

lemma modify_fresh:
  "modify (length h) g (h @ [f]) =
     (case g f of Inl e \<Rightarrow> (Inl e, h @ [f]) | Inr f' \<Rightarrow> (Inr (), h @ [f']))"
  by (simp add: modify_def split: sum.splits)

lemmas prog_defs =
  bnd_def deref_def lift_def ret_def copy_eq setitem_def setitem_scalar_def modify_fresh Let_def

lemmas frame_defs =
  tail_subset_def getattr_def getitem_def series_eq_def boolean_index_def keep_def slice_from_def
  slice_start_def concat_rows_def uniq_def column_or_nan_def groupby_agg_def group_keys_of_def
  group_keys_def sort_keys_def agg_by_def agg_max_def agg_mean_def reset_index_def
  set_columns_def

lemma set_values_index: "set_values n v f = Inr f' \<Longrightarrow> index f' = index f"
  by (auto simp: set_values_def split: if_splits)

lemma set_scalar_index: "set_scalar n c f = Inr f' \<Longrightarrow> index f' = index f"
  by (auto simp: set_scalar_def)

lemma map_of_assign_same: "map_of (assign n v cols) n = Some v"
  by (induction cols) auto

lemma map_of_assign_other: "n' \<noteq> n \<Longrightarrow> map_of (assign n v cols) n' = map_of cols n'"
  by (induction cols) auto

lemma getitem_set_scalar_same:
  "set_scalar n c f = Inr f' \<Longrightarrow> getitem f' n = Inr (replicate (length (index f')) c)"
  by (auto simp: set_scalar_def getitem_def map_of_assign_same)

lemma getitem_set_scalar_other:
  "set_scalar n c f = Inr f' \<Longrightarrow> n' \<noteq> n \<Longrightarrow> getitem f' n' = getitem f n'"
  by (auto simp: set_scalar_def getitem_def map_of_assign_other)

lemma collect_heap: "snd (collect dfs d k cdf h) = h"
  by (induction dfs arbitrary: cdf) (auto simp: prog_defs split: sum.splits)

section \<open>The trend estimators keep the rows of their input\<close>

lemma naive_trend_index:
  assumes "naive_trend df c h = (Inr r, h')"
  shows "df < length h \<and> r = length h \<and> (\<exists>f'. h' = h @ [f'] \<and> index f' = index (h ! df))"
  using assms
  by (auto simp: naive_trend_def prog_defs split: sum.splits if_splits prod.splits
      dest!: set_values_index set_scalar_index)

lemma spline_trend_index:
  assumes "spline_trend sp df c fo d s h = (Inr r, h')"
  shows "df < length h \<and> r = length h \<and> (\<exists>f'. h' = h @ [f'] \<and> index f' = index (h ! df))"
  using assms
  by (auto simp: spline_trend_def prog_defs split: sum.splits if_splits prod.splits
      dest!: set_values_index set_scalar_index)

lemma sgolay_trend_index:
  assumes "sgolay_trend sp df c fo d w h = (Inr r, h')"
  shows "df < length h \<and> r = length h \<and> (\<exists>f'. h' = h @ [f'] \<and> index f' = index (h ! df))"
  using assms
  by (auto simp: sgolay_trend_def prog_defs split: sum.splits if_splits prod.splits
      dest!: set_values_index set_scalar_index)

text \<open>
  C1. Whenever \<^verbatim>\<open>naive_trend\<close>, \<^verbatim>\<open>spline_trend\<close> or \<^verbatim>\<open>sgolay_trend\<close> returns a table, the index
  of that table is the index of the input table: the same row labels in the same order, so
  no row is added, removed or moved.
\<close>

theorem trend_keeps_rows:
  "(naive_trend df c h = (Inr r1, h1) \<longrightarrow> index (h1 ! r1) = index (h ! df)) \<and>
   (spline_trend sp df c fo d s h = (Inr r2, h2) \<longrightarrow> index (h2 ! r2) = index (h ! df)) \<and>
   (sgolay_trend sp df c fo d w h = (Inr r3, h3) \<longrightarrow> index (h3 ! r3) = index (h ! df))"
proof (intro conjI impI)
  assume "naive_trend df c h = (Inr r1, h1)"
  from naive_trend_index[OF this] show "index (h1 ! r1) = index (h ! df)" by auto
next
  assume "spline_trend sp df c fo d s h = (Inr r2, h2)"
  from spline_trend_index[OF this] show "index (h2 ! r2) = index (h ! df)" by auto
next
  assume "sgolay_trend sp df c fo d w h = (Inr r3, h3)"
  from sgolay_trend_index[OF this] show "index (h3 ! r3) = index (h ! df)" by auto
qed

theorem trend_keeps_rows_witness:
  "fst (naive_trend 0 ''value'' [value_table [1, 2, 3]]) = Inr 1 \<and>
   fst (spline_trend zero_scipy 0 ''value'' (Num 1) (Num 1) (Num 3) [value_table [1, 2, 3]]) = Inr 1 \<and>
   fst (sgolay_trend zero_scipy 0 ''value'' (Num 1) (Num 1) 3 [value_table [1, 2, 3]]) = Inr 1 \<and>
   index (snd (naive_trend 0 ''value'' [value_table [1, 2, 3]]) ! 1) = [Num 0, Num 1, Num 2] \<and>
   index (snd (spline_trend zero_scipy 0 ''value'' (Num 1) (Num 1) (Num 3)
                 [value_table [1, 2, 3]]) ! 1) = [Num 0, Num 1, Num 2] \<and>
   index (snd (sgolay_trend zero_scipy 0 ''value'' (Num 1) (Num 1) 3
                 [value_table [1, 2, 3]]) ! 1) = [Num 0, Num 1, Num 2]"
proof -
  let ?h = "[value_table [1, 2, 3]]"
  let ?n = "naive_trend 0 ''value'' ?h"
  let ?s = "spline_trend zero_scipy 0 ''value'' (Num 1) (Num 1) (Num 3) ?h"
  let ?g = "sgolay_trend zero_scipy 0 ''value'' (Num 1) (Num 1) 3 ?h"
  have n: "fst ?n = Inr 1" by code_simp
  have s: "fst ?s = Inr 1" by code_simp
  have g: "fst ?g = Inr 1" by code_simp
  have i: "index (?h ! 0) = [Num 0, Num 1, Num 2]" by code_simp
  have n': "?n = (Inr 1, snd ?n)" using n by (simp add: prod_eq_iff)
  have s': "?s = (Inr 1, snd ?s)" using s by (simp add: prod_eq_iff)
  have g': "?g = (Inr 1, snd ?g)" using g by (simp add: prod_eq_iff)
  from trend_keeps_rows[of 0 "''value''" ?h 1 "snd ?n" zero_scipy "Num 1" "Num 1" "Num 3"
                           1 "snd ?s" 3 1 "snd ?g"]
  show ?thesis using n s g i n' s' g' by simp
qed

section \<open>What \<^verbatim>\<open>naive_trend\<close> computes\<close>

text \<open>
  C2. On the series 1, 2, 3 the call returns, and its \<^verbatim>\<open>derivative_value\<close> column is
  -2, -3/2, -3/2: at the interior row the code averages \<^verbatim>\<open>y.shift(1) - y = -1\<close> with the
  constant \<^verbatim>\<open>(y - y) - 2 = -2\<close>. The mean of the forward and the backward difference at
  that row is 1.
\<close>

theorem naive_trend_not_centered:
  "fst (naive_trend 0 ''value'' [value_table [1, 2, 3]]) = Inr 1 \<and>
   getitem (snd (naive_trend 0 ''value'' [value_table [1, 2, 3]]) ! 1) ''derivative_value''
     = Inr [Num (- 2), Num (- 3 / 2), Num (- 3 / 2)] \<and>
   centered_difference [1, 2, 3] 1 = 1"
  by code_simp

section \<open>Tags written by the spline and Savitzky-Golay estimators\<close>

lemma spline_trend_tags:
  assumes "spline_trend sp df c fo d s h = (Inr r, h')"
  shows "getitem (h' ! r) ''function_order'' = Inr (replicate (length (index (h' ! r))) fo) \<and>
         getitem (h' ! r) ''derivative_order'' = Inr (replicate (length (index (h' ! r))) d) \<and>
         getitem (h' ! r) ''derivative_method'' =
           Inr (replicate (length (index (h' ! r))) (Str ''spline''))"
  using assms
  by (auto simp: spline_trend_def prog_defs set_scalar_def set_values_def getitem_def
        map_of_assign_same map_of_assign_other split: sum.splits if_splits prod.splits)

lemma sgolay_trend_tags:
  assumes "sgolay_trend sp df c fo d w h = (Inr r, h')"
  shows "getitem (h' ! r) ''function_order'' = Inr (replicate (length (index (h' ! r))) fo) \<and>
         getitem (h' ! r) ''derivative_order'' = Inr (replicate (length (index (h' ! r))) d) \<and>
         getitem (h' ! r) ''derivative_method'' =
           Inr (replicate (length (index (h' ! r))) (Str ''sgolay''))"
  using assms
  by (auto simp: sgolay_trend_def prog_defs set_scalar_def set_values_def getitem_def
        map_of_assign_same map_of_assign_other split: sum.splits if_splits prod.splits)

text \<open>
  C7. In the table that \<^verbatim>\<open>spline_trend\<close> or \<^verbatim>\<open>sgolay_trend\<close> returns, the columns
  \<^verbatim>\<open>function_order\<close> and \<^verbatim>\<open>derivative_order\<close> hold the arguments of those names in every
  row, and \<^verbatim>\<open>derivative_method\<close> holds \<^verbatim>\<open>'spline'\<close>, respectively \<^verbatim>\<open>'sgolay'\<close>, in every row.
\<close>

theorem trend_tags:
  "(spline_trend sp df c fo d s h = (Inr r1, h1) \<longrightarrow>
      getitem (h1 ! r1) ''function_order'' = Inr (replicate (length (index (h1 ! r1))) fo) \<and>
      getitem (h1 ! r1) ''derivative_order'' = Inr (replicate (length (index (h1 ! r1))) d) \<and>
      getitem (h1 ! r1) ''derivative_method'' =
        Inr (replicate (length (index (h1 ! r1))) (Str ''spline''))) \<and>
   (sgolay_trend sp df c fo d w h = (Inr r2, h2) \<longrightarrow>
      getitem (h2 ! r2) ''function_order'' = Inr (replicate (length (index (h2 ! r2))) fo) \<and>
      getitem (h2 ! r2) ''derivative_order'' = Inr (replicate (length (index (h2 ! r2))) d) \<and>
      getitem (h2 ! r2) ''derivative_method'' =
        Inr (replicate (length (index (h2 ! r2))) (Str ''sgolay'')))"
  using spline_trend_tags[of sp df c fo d s h r1 h1] sgolay_trend_tags[of sp df c fo d w h r2 h2]
  by blast

theorem trend_tags_witness:
  "fst (spline_trend zero_scipy 0 ''value'' (Num 2) (Num 1) (Num 3) [value_table [1, 2, 3]])
     = Inr 1 \<and>
   fst (sgolay_trend zero_scipy 0 ''value'' (Num 2) (Num 1) 3 [value_table [1, 2, 3]]) = Inr 1 \<and>
   getitem (snd (spline_trend zero_scipy 0 ''value'' (Num 2) (Num 1) (Num 3)
                   [value_table [1, 2, 3]]) ! 1) ''function_order''
     = Inr [Num 2, Num 2, Num 2] \<and>
   getitem (snd (spline_trend zero_scipy 0 ''value'' (Num 2) (Num 1) (Num 3)
                   [value_table [1, 2, 3]]) ! 1) ''derivative_method''
     = Inr [Str ''spline'', Str ''spline'', Str ''spline''] \<and>
   getitem (snd (sgolay_trend zero_scipy 0 ''value'' (Num 2) (Num 1) 3
                   [value_table [1, 2, 3]]) ! 1) ''derivative_order''
     = Inr [Num 1, Num 1, Num 1] \<and>
   getitem (snd (sgolay_trend zero_scipy 0 ''value'' (Num 2) (Num 1) 3
                   [value_table [1, 2, 3]]) ! 1) ''derivative_method''
     = Inr [Str ''sgolay'', Str ''sgolay'', Str ''sgolay'']"
proof -
  let ?h = "[value_table [1, 2, 3]]"
  let ?s = "spline_trend zero_scipy 0 ''value'' (Num 2) (Num 1) (Num 3) ?h"
  let ?g = "sgolay_trend zero_scipy 0 ''value'' (Num 2) (Num 1) 3 ?h"
  have s: "fst ?s = Inr 1" by code_simp
  have g: "fst ?g = Inr 1" by code_simp
  have ls: "length (index (snd ?s ! 1)) = 3" by code_simp
  have lg: "length (index (snd ?g ! 1)) = 3" by code_simp
  have s': "?s = (Inr 1, snd ?s)" using s by (simp add: prod_eq_iff)
  have g': "?g = (Inr 1, snd ?g)" using g by (simp add: prod_eq_iff)
  from trend_tags[of zero_scipy 0 "''value''" "Num 2" "Num 1" "Num 3" ?h 1 "snd ?s" 3 1 "snd ?g"]
  show ?thesis using s g s' g' ls lg by (simp add: numeral_3_eq_3)
qed

section \<open>The Savitzky-Golay estimator refuses a window longer than the series\<close>

text \<open>
  C6. When the series (the value column of the input table) has fewer entries than
  \<^verbatim>\<open>window_length\<close>, \<^verbatim>\<open>sgolay_trend\<close> raises the filter's ValueError and returns no table.
\<close>

theorem sgolay_window_exceeds_length:
  assumes "df < length h"
    and "getitem (h ! df) column_value = Inr y"
    and "int (length y) < window_length"
  shows "fst (sgolay_trend sp df column_value function_order derivative_order window_length h)
           = Inl ValueError"
  using assms by (simp add: sgolay_trend_def prog_defs savgol_filter_def)

theorem sgolay_window_exceeds_length_witness:
  "(0::nat) < length [value_table [1, 2, 3]] \<and>
   getitem ([value_table [1, 2, 3]] ! 0) ''value'' = Inr [Num 1, Num 2, Num 3] \<and>
   int (length [Num 1, Num 2, Num 3]) < 15 \<and>
   fst (sgolay_trend zero_scipy 0 ''value'' (Num 3) (Num 1) 15 [value_table [1, 2, 3]])
     = Inl ValueError"
proof -
  have a: "(0::nat) < length [value_table [1, 2, 3]]" by simp
  have b: "getitem ([value_table [1, 2, 3]] ! 0) ''value'' = Inr [Num 1, Num 2, Num 3]"
    by code_simp
  have c: "int (length [Num 1, Num 2, Num 3]) < 15" by simp
  from sgolay_window_exceeds_length[OF a b c, of zero_scipy "Num 3" "Num 1"] a b c
  show ?thesis by simp
qed

section \<open>No call changes a table that existed before it\<close>

lemma naive_trend_frame: "\<exists>new. snd (naive_trend df c h) = h @ new"
  by (auto simp: naive_trend_def prog_defs split: sum.splits if_splits prod.splits)

lemma spline_trend_frame: "\<exists>new. snd (spline_trend sp df c fo d s h) = h @ new"
  by (auto simp: spline_trend_def prog_defs split: sum.splits if_splits prod.splits)

lemma sgolay_trend_frame: "\<exists>new. snd (sgolay_trend sp df c fo d w h) = h @ new"
  by (auto simp: sgolay_trend_def prog_defs split: sum.splits if_splits prod.splits)

lemma trending_frame: "\<exists>new. snd (trending dfs cid d m k h) = h @ new"
  using collect_heap[of dfs d k "[]" h]
  by (auto simp: trending_def prog_defs alloc_def split: sum.splits if_splits prod.splits)

lemma trending_fresh: "trending dfs cid d m k h = (Inr r, h') \<Longrightarrow> r = length h"
  using collect_heap[of dfs d k "[]" h]
  by (auto simp: trending_def prog_defs alloc_def split: sum.splits if_splits prod.splits)

text \<open>
  C9. After a call of any of the four functions, whether it returns or raises, the store
  is the store before the call followed by new objects only: every table that existed
  before, the arguments among them, is what it was. A returned table is a new object.
\<close>

theorem inputs_unchanged:
  "(\<exists>new. snd (naive_trend df c h) = h @ new) \<and>
   (\<exists>new. snd (spline_trend sp df c fo d s h) = h @ new) \<and>
   (\<exists>new. snd (sgolay_trend sp df c fo d w h) = h @ new) \<and>
   (\<exists>new. snd (trending dfs cid d' m k h) = h @ new) \<and>
   (\<forall>r. fst (naive_trend df c h) = Inr r \<longrightarrow> r = length h) \<and>
   (\<forall>r. fst (spline_trend sp df c fo d s h) = Inr r \<longrightarrow> r = length h) \<and>
   (\<forall>r. fst (sgolay_trend sp df c fo d w h) = Inr r \<longrightarrow> r = length h) \<and>
   (\<forall>r. fst (trending dfs cid d' m k h) = Inr r \<longrightarrow> r = length h)"
proof -
  have "r = length h" if "fst (naive_trend df c h) = Inr r" for r
    using naive_trend_index[of df c h r "snd (naive_trend df c h)"] that
    by (simp add: prod_eq_iff)
  moreover have "r = length h" if "fst (spline_trend sp df c fo d s h) = Inr r" for r
    using spline_trend_index[of sp df c fo d s h r "snd (spline_trend sp df c fo d s h)"] that
    by (simp add: prod_eq_iff)
  moreover have "r = length h" if "fst (sgolay_trend sp df c fo d w h) = Inr r" for r
    using sgolay_trend_index[of sp df c fo d w h r "snd (sgolay_trend sp df c fo d w h)"] that
    by (simp add: prod_eq_iff)
  moreover have "r = length h" if "fst (trending dfs cid d' m k h) = Inr r" for r
    using trending_fresh[of dfs cid d' m k h r "snd (trending dfs cid d' m k h)"] that
    by (simp add: prod_eq_iff)
  ultimately show ?thesis
    by (simp add: naive_trend_frame spline_trend_frame sgolay_trend_frame trending_frame)
qed

theorem inputs_unchanged_witness:
  "fst (naive_trend 0 ''value'' [series_table ''A'' 1 [1, 2, 3] [1, 1, 1]]) = Inr 1 \<and>
   fst (spline_trend zero_scipy 0 ''value'' (Num 1) (Num 1) (Num 3)
          [series_table ''A'' 1 [1, 2, 3] [1, 1, 1]]) = Inr 1 \<and>
   fst (sgolay_trend zero_scipy 0 ''value'' (Num 1) (Num 1) 3
          [series_table ''A'' 1 [1, 2, 3] [1, 1, 1]]) = Inr 1 \<and>
   fst (trending [0] ''id'' (Num 1) ''max'' 2 [series_table ''A'' 1 [1, 2, 3] [1, 1, 1]]) = Inr 1 \<and>
   take 1 (snd (naive_trend 0 ''value'' [series_table ''A'' 1 [1, 2, 3] [1, 1, 1]]))
     = [series_table ''A'' 1 [1, 2, 3] [1, 1, 1]] \<and>
   take 1 (snd (spline_trend zero_scipy 0 ''value'' (Num 1) (Num 1) (Num 3)
                  [series_table ''A'' 1 [1, 2, 3] [1, 1, 1]]))
     = [series_table ''A'' 1 [1, 2, 3] [1, 1, 1]] \<and>
   take 1 (snd (sgolay_trend zero_scipy 0 ''value'' (Num 1) (Num 1) 3
                  [series_table ''A'' 1 [1, 2, 3] [1, 1, 1]]))
     = [series_table ''A'' 1 [1, 2, 3] [1, 1, 1]] \<and>
   take 1 (snd (trending [0] ''id'' (Num 1) ''max'' 2 [series_table ''A'' 1 [1, 2, 3] [1, 1, 1]]))
     = [series_table ''A'' 1 [1, 2, 3] [1, 1, 1]]"
proof -
  let ?h = "[series_table ''A'' 1 [1, 2, 3] [1, 1, 1]]"
  have n: "fst (naive_trend 0 ''value'' ?h) = Inr 1" by code_simp
  have s: "fst (spline_trend zero_scipy 0 ''value'' (Num 1) (Num 1) (Num 3) ?h) = Inr 1"
    by code_simp
  have g: "fst (sgolay_trend zero_scipy 0 ''value'' (Num 1) (Num 1) 3 ?h) = Inr 1"
    by code_simp
  have t: "fst (trending [0] ''id'' (Num 1) ''max'' 2 ?h) = Inr 1" by code_simp
  from inputs_unchanged[of 0 "''value''" ?h zero_scipy "Num 1" "Num 1" "Num 3" 3
                           "[0]" "''id''" "Num 1" "''max''" 2]
  show ?thesis using n s g t by auto
qed

section \<open>\<^verbatim>\<open>trending\<close> on two series\<close>

text \<open>
  C8. For series A with values 1, 2, 3, 4, 5 and series B with values 5, 4, 3, 2, 1, every
  row tagged with derivative order 1, whatever the derivative values of the rows are,
  \<^verbatim>\<open>trending\<close> with \<^verbatim>\<open>derivative_order=1\<close>, \<^verbatim>\<open>k=2\<close> and \<^verbatim>\<open>max_or_avg='max'\<close> returns a new table of
  exactly two rows: A with the larger of its last two derivative values, and B with the
  larger of its last two derivative values.
\<close>

theorem trending_two_series:
  "trending [0, 1] ''id'' (Num 1) ''max'' 2
     [series_table ''A'' 1 [1, 2, 3, 4, 5] [a0, a1, a2, a3, a4],
      series_table ''B'' 1 [5, 4, 3, 2, 1] [b0, b1, b2, b3, b4]]
   = (Inr 2,
      [series_table ''A'' 1 [1, 2, 3, 4, 5] [a0, a1, a2, a3, a4],
       series_table ''B'' 1 [5, 4, 3, 2, 1] [b0, b1, b2, b3, b4],
       \<lparr>index = [Num 0, Num 1], index_name = None,
        columns = [(''id'', [Str ''A'', Str ''B'']),
                   (''max_or_avg'', [Num (max a3 a4), Num (max b3 b4)])]\<rparr>])"
  by (simp add: trending_def prog_defs alloc_def modify_def series_table_def frame_defs
      upt_rec eval_nat_numeral)

section \<open>The order of the ranking table\<close>

text \<open>
  C5. For a falling series A (derivative values -1) and a rising series B (derivative
  values 1), \<^verbatim>\<open>trending\<close> returns the rows A, -1 and B, 1 in this order: the groups come in
  the order of their identifiers, and the scores do not read from maximum to minimum.
\<close>

theorem trending_not_descending:
  "fst (trending [0, 1] ''id'' (Num 1) ''max'' 2
          [series_table ''A'' 1 [5, 4, 3, 2, 1] [- 1, - 1, - 1, - 1, - 1],
           series_table ''B'' 1 [1, 2, 3, 4, 5] [1, 1, 1, 1, 1]]) = Inr 2 \<and>
   snd (trending [0, 1] ''id'' (Num 1) ''max'' 2
          [series_table ''A'' 1 [5, 4, 3, 2, 1] [- 1, - 1, - 1, - 1, - 1],
           series_table ''B'' 1 [1, 2, 3, 4, 5] [1, 1, 1, 1, 1]]) ! 2
     = \<lparr>index = [Num 0, Num 1], index_name = None,
        columns = [(''id'', [Str ''A'', Str ''B'']), (''max_or_avg'', [Num (- 1), Num 1])]\<rparr> \<and>
   \<not> descending [Num (- 1), Num 1]"
  by code_simp

section \<open>The ranking pipeline\<close>

lemma keep_nth:
  "length msk = length xs \<Longrightarrow> keep msk xs = map ((!) xs) (filter (\<lambda>i. msk ! i) [0..<length xs])"
proof (induction xs arbitrary: msk rule: rev_induct)
  case Nil
  then show ?case by (simp add: keep_def)
next
  case (snoc x xs)
  then obtain m ms where msk: "msk = ms @ [m]" and len: "length ms = length xs"
    by (cases msk rule: rev_cases) auto
  have 1: "keep (ms @ [m]) (xs @ [x]) = keep ms xs @ (if m then [x] else [])"
    using len by (simp add: keep_def)
  have 2: "filter (\<lambda>i. (ms @ [m]) ! i) [0..<length xs] = filter (\<lambda>i. ms ! i) [0..<length xs]"
    using len by (intro filter_cong) (auto simp: nth_append)
  have 3: "map ((!) (xs @ [x])) (filter (\<lambda>i. ms ! i) [0..<length xs])
         = map ((!) xs) (filter (\<lambda>i. ms ! i) [0..<length xs])"
    by (intro map_cong) (auto simp: nth_append)
  have 4: "(ms @ [m]) ! length xs = m" "(xs @ [x]) ! length xs = x"
    using len by (simp_all add: nth_append)
  have "map ((!) (xs @ [x])) (filter (\<lambda>i. (ms @ [m]) ! i) [0..<length (xs @ [x])])
      = map ((!) (xs @ [x])) (filter (\<lambda>i. (ms @ [m]) ! i) [0..<length xs])
        @ (if m then [x] else [])"
    by (simp add: 4)
  also have "\<dots> = keep ms xs @ (if m then [x] else [])"
    by (simp only: 2 3 snoc.IH[OF len])
  finally show ?case by (simp only: msk 1)
qed

lemma wf_frame_column_length:
  "wf_frame f \<Longrightarrow> (n, v) \<in> set (columns f) \<Longrightarrow> length v = length (index f)"
  by (auto simp: wf_frame_def list_all_iff)

lemma wf_frame_map_of_length:
  "wf_frame f \<Longrightarrow> map_of (columns f) n = Some v \<Longrightarrow> length v = length (index f)"
  by (auto dest: map_of_SomeD wf_frame_column_length)

lemma slice_start_neg: "1 \<le> k \<Longrightarrow> slice_start (- k) n = n - nat k"
  by (auto simp: slice_start_def)

lemma collect_windows:
  assumes "\<forall>r \<in> set dfs. r < length h"
  shows "collect dfs d k cdf h =
           (case sequence (map (\<lambda>f. tail_subset f d k) (map ((!) h) dfs)) of
              Inl e \<Rightarrow> (Inl e, h)
            | Inr ws \<Rightarrow> (Inr (cdf @ ws), h))"
  using assms
proof (induction dfs arbitrary: cdf)
  case Nil
  then show ?case by (simp add: ret_def)
next
  case (Cons df dfs)
  then show ?case
    by (cases "tail_subset (h ! df) d k") (simp_all add: prog_defs split: sum.splits)
qed

lemma groupby_agg_shape:
  "groupby_agg f name column how = Inr g \<Longrightarrow>
     \<exists>keys agg. g = \<lparr>index = keys, index_name = Some name, columns = [(column, agg)]\<rparr>"
  by (auto simp: groupby_agg_def Let_def split: sum.splits)

lemma finish_ranking:
  assumes "groupby_agg f ''id'' ''derivative_value'' how = Inr g"
  shows "bnd (alloc g) (\<lambda>odf.
         bnd (modify odf reset_index) (\<lambda>_.
         bnd (modify odf (set_columns [''id'', ''max_or_avg''])) (\<lambda>_.
         ret odf))) h = (Inr (length h), h @ [ranking g])"
proof -
  from groupby_agg_shape[OF assms] obtain keys agg where
    g: "g = \<lparr>index = keys, index_name = Some ''id'', columns = [(''derivative_value'', agg)]\<rparr>"
    by blast
  show ?thesis
    by (simp add: g bnd_def alloc_def modify_fresh reset_index_def set_columns_def ret_def
        ranking_def column_or_nan_def)
qed

lemma trending_pipeline:
  assumes "\<forall>r \<in> set dfs. r < length h"
  shows "trending dfs cid d m k h =
           (case sequence (map (\<lambda>f. tail_subset f d k) (map ((!) h) dfs)) of
              Inl e \<Rightarrow> (Inl e, h)
            | Inr ws \<Rightarrow>
               (case concat_rows ws of
                  Inl e \<Rightarrow> (Inl e, h)
                | Inr pooled \<Rightarrow>
                   (case groupby_agg pooled ''id'' ''derivative_value''
                                      (if m = ''avg'' then ''mean'' else m) of
                      Inl e \<Rightarrow> (Inl e, h)
                    | Inr g \<Rightarrow> (Inr (length h), h @ [ranking g]))))"
  unfolding trending_def
  by (simp add: bnd_def[of "collect _ _ _ _"] bnd_def[of "lift _"] lift_def
        collect_windows[OF assms] finish_ranking Let_def split: sum.splits)

lemma window_eq:
  assumes wf: "wf_frame f" and k: "1 \<le> k"
  shows "tail_subset f d k = tail_window d (nat k) f"
proof (cases "getattr f ''derivative_order''")
  case (Inl e)
  then show ?thesis by (simp add: tail_subset_def tail_window_def matching_rows_def)
next
  case (Inr col)
  let ?N = "length (index f)"
  let ?msk = "series_eq col d"
  let ?ps = "filter (\<lambda>i. cell_eq (col ! i) d) [0..<length col]"
  have lcol: "length col = ?N"
    using wf Inr by (auto simp: getattr_def split: option.splits dest: wf_frame_map_of_length)
  have lmsk: "length ?msk = ?N" by (simp add: series_eq_def lcol)
  have ps: "filter (\<lambda>i. ?msk ! i) [0..<?N] = ?ps"
    unfolding lcol by (intro filter_cong) (auto simp: series_eq_def lcol)
  have keep_any: "keep ?msk xs = map ((!) xs) ?ps" if "length xs = ?N" for xs :: "cell list"
    using keep_nth[of ?msk xs] that lmsk ps by simp
  have lkeep: "length (keep ?msk (index f)) = length ?ps"
    by (simp add: keep_any)
  let ?dd = "length ?ps - nat k"
  have idx: "drop ?dd (keep ?msk (index f)) = map ((!) (index f)) (last_k (nat k) ?ps)"
    by (simp add: keep_any drop_map last_k_def)
  have cols: "map ((\<lambda>(n, v). (n, drop ?dd v)) \<circ> (\<lambda>(n, v). (n, keep ?msk v))) (columns f)
            = map (\<lambda>(n, v). (n, map ((!) v) (last_k (nat k) ?ps))) (columns f)"
    using wf by (auto simp: keep_any drop_map last_k_def dest: wf_frame_column_length)
  show ?thesis
    using Inr k
    by (simp add: tail_subset_def tail_window_def matching_rows_def slice_from_def
        boolean_index_def slice_start_neg lkeep idx cols take_rows_def)
qed

text \<open>
  Where the code and the step-by-step ranking agree. For \<open>k \<ge> 1\<close> and \<^verbatim>\<open>max_or_avg\<close> either
  \<^verbatim>\<open>'max'\<close> or \<^verbatim>\<open>'avg'\<close>, \<^verbatim>\<open>trending\<close> on a list of tables returns, or raises, exactly what the
  step-by-step ranking does: keep the rows of each table with the requested order, take the
  last \<open>k\<close> of them, concatenate the subsets, group by \<^verbatim>\<open>id\<close>, aggregate \<^verbatim>\<open>derivative_value\<close>
  with \<^verbatim>\<open>'max'\<close> or \<^verbatim>\<open>'mean'\<close>. The result is a new table and the store is otherwise unchanged.
\<close>

theorem trending_refines_spec:
  assumes "1 \<le> k"
    and "\<forall>r \<in> set df_list. r < length h \<and> wf_frame (h ! r)"
    and "max_or_avg = ''max'' \<or> max_or_avg = ''avg''"
  shows "trending df_list column_id derivative_order max_or_avg k h =
           (case trending_spec (map ((!) h) df_list) derivative_order max_or_avg (nat k) of
              Inl e \<Rightarrow> (Inl e, h)
            | Inr t \<Rightarrow> (Inr (length h), h @ [t]))"
proof -
  have how: "(if max_or_avg = ''avg'' then ''mean'' else max_or_avg)
           = (if max_or_avg = ''max'' then ''max'' else ''mean'')"
    using assms(3) by auto
  have refs: "\<forall>r \<in> set df_list. r < length h" using assms(2) by blast
  have ws: "map (\<lambda>f. tail_subset f derivative_order k) (map ((!) h) df_list)
          = map (tail_window derivative_order (nat k)) (map ((!) h) df_list)"
    using assms(1,2) by (auto simp: window_eq)
  show ?thesis
    unfolding trending_pipeline[OF refs] trending_spec_def ws how
    by (simp split: sum.splits)
qed

theorem trending_refines_spec_witness:
  "(1::int) \<le> 2 \<and>
   list_all (\<lambda>r. r < length [series_table ''A'' 1 [1, 2, 3] [3, 1, 2],
                                 series_table ''B'' 1 [3, 2, 1] [5, 8, 6]] \<and>
                  wf_frame ([series_table ''A'' 1 [1, 2, 3] [3, 1, 2],
                             series_table ''B'' 1 [3, 2, 1] [5, 8, 6]] ! r)) [0, 1] \<and>
   trending_spec (map ((!) [series_table ''A'' 1 [1, 2, 3] [3, 1, 2],
                            series_table ''B'' 1 [3, 2, 1] [5, 8, 6]]) [0, 1]) (Num 1) ''avg'' (nat 2)
     = Inr \<lparr>index = [Num 0, Num 1], index_name = None,
            columns = [(''id'', [Str ''A'', Str ''B'']),
                       (''max_or_avg'', [Num (3 / 2), Num 7])]\<rparr> \<and>
   trending [0, 1] ''id'' (Num 1) ''avg'' 2
            [series_table ''A'' 1 [1, 2, 3] [3, 1, 2], series_table ''B'' 1 [3, 2, 1] [5, 8, 6]]
     = (Inr 2, [series_table ''A'' 1 [1, 2, 3] [3, 1, 2], series_table ''B'' 1 [3, 2, 1] [5, 8, 6],
                \<lparr>index = [Num 0, Num 1], index_name = None,
                 columns = [(''id'', [Str ''A'', Str ''B'']),
                            (''max_or_avg'', [Num (3 / 2), Num 7])]\<rparr>])"
proof -
  let ?h = "[series_table ''A'' 1 [1, 2, 3] [3, 1, 2], series_table ''B'' 1 [3, 2, 1] [5, 8, 6]]"
  have a: "(1::int) \<le> 2" by simp
  have b': "list_all (\<lambda>r. r < length ?h \<and> wf_frame (?h ! r)) [0, 1]" by code_simp
  then have b: "\<forall>r \<in> set [0, 1]. r < length ?h \<and> wf_frame (?h ! r)"
    unfolding list_all_iff .
  have c: "''avg'' = ''max'' \<or> ''avg'' = ''avg''" by simp
  have s: "trending_spec (map ((!) ?h) [0, 1]) (Num 1) ''avg'' (nat 2)
     = Inr \<lparr>index = [Num 0, Num 1], index_name = None,
            columns = [(''id'', [Str ''A'', Str ''B'']),
                       (''max_or_avg'', [Num (3 / 2), Num 7])]\<rparr>" by code_simp
  from trending_refines_spec[OF a b c, of "''id''" "Num 1"] a b' s
  show ?thesis by simp
qed

text \<open>
  C3. For \<open>k = 0\<close> the code does not take the last \<open>k\<close> matching rows: the slice \<^verbatim>\<open>[-k:]\<close> of
  line 141 is then \<^verbatim>\<open>[0:]\<close>, the whole subset. On the series A with the derivative values
  1, 2, 3 the call returns the row A, 3, the maximum over all three rows; the last 0 rows
  are no rows, and the step-by-step ranking over them is the empty table.
\<close>

theorem trending_last_zero_rows:
  "trending [0] ''id'' (Num 1) ''max'' 0 [series_table ''A'' 1 [1, 2, 3] [1, 2, 3]]
     = (Inr 1, [series_table ''A'' 1 [1, 2, 3] [1, 2, 3],
                \<lparr>index = [Num 0], index_name = None,
                 columns = [(''id'', [Str ''A'']), (''max_or_avg'', [Num 3])]\<rparr>]) \<and>
   tail_subset (series_table ''A'' 1 [1, 2, 3] [1, 2, 3]) (Num 1) 0
     = Inr (series_table ''A'' 1 [1, 2, 3] [1, 2, 3]) \<and>
   tail_window (Num 1) 0 (series_table ''A'' 1 [1, 2, 3] [1, 2, 3])
     = Inr \<lparr>index = [], index_name = None,
            columns = [(''value'', []), (''derivative_value'', []),
                       (''derivative_order'', []), (''id'', [])]\<rparr> \<and>
   trending_spec [series_table ''A'' 1 [1, 2, 3] [1, 2, 3]] (Num 1) ''max'' 0
     = Inr \<lparr>index = [], index_name = None,
            columns = [(''id'', []), (''max_or_avg'', [])]\<rparr>"
  by code_simp

section \<open>The identifiers in the ranking table\<close>





lemma sequence_map_defined:
  "sequence (map g xs) = Inr ys \<Longrightarrow> x \<in> set xs \<Longrightarrow> \<exists>y. g x = Inr y"
  by (induction xs arbitrary: ys) (auto split: sum.splits)






lemma index_slice_from: "index (slice_from s f) = drop (slice_start s (length (index f))) (index f)"
  by (simp add: slice_from_def Let_def)







































section \<open>Tables with fewer than \<open>k\<close> matching rows\<close>






end
